theory Spec2Isabelle
  imports Main "HOL-Library.Sublist" "HOL-Library.AList"
begin

section \<open>The grpcrunserver management command\<close>

text \<open>
  The source is \<^verbatim>\<open>django_grpc_framework/management/commands/grpcrunserver.py\<close>: one
  class \<^verbatim>\<open>Command\<close> with the methods \<^verbatim>\<open>add_arguments\<close>, \<^verbatim>\<open>handle\<close>,
  \<^verbatim>\<open>run\<close>, \<^verbatim>\<open>_serve\<close> and \<^verbatim>\<open>inner_run\<close>. The command computes nothing: it calls
  the gRPC runtime, Django and the output streams in some order and reacts to the exceptions
  they raise. The model therefore records every such call in a trace and takes the
  behaviour of the libraries (which call returns, which call raises what) as a parameter.
\<close>

subsection \<open>Python values and exceptions\<close>

datatype pyval = PyNone | PyBool bool | PyInt int | PyStr string

definition digit_char :: "nat \<Rightarrow> char" where
  "digit_char d = ''0123456789'' ! d"

fun digit_string :: "nat \<Rightarrow> string" where
  "digit_string n =
     (if n < 10 then [digit_char n]
      else digit_string (n div 10) @ [digit_char (n mod 10)])"

declare digit_string.simps [simp del]

text \<open>\<^verbatim>\<open>str(v)\<close>, as the f-string and the \<^verbatim>\<open>%s\<close> conversion apply it.\<close>

fun py_str :: "pyval \<Rightarrow> string" where
  "py_str PyNone = ''None''"
| "py_str (PyBool b) = (if b then ''True'' else ''False'')"
| "py_str (PyInt i) = (if i < 0 then ''-'' @ digit_string (nat (- i)) else digit_string (nat i))"
| "py_str (PyStr s) = s"

text \<open>The truth value that \<^verbatim>\<open>if self.development_mode:\<close> tests.\<close>

fun py_truthy :: "pyval \<Rightarrow> bool" where
  "py_truthy PyNone = False"
| "py_truthy (PyBool b) = b"
| "py_truthy (PyInt i) = (i \<noteq> 0)"
| "py_truthy (PyStr s) = (s \<noteq> [])"

text \<open>
  The exceptions the command distinguishes. \<open>OSError en s\<close> carries \<^verbatim>\<open>e.errno\<close> (which
  may be \<^verbatim>\<open>None\<close>) and \<^verbatim>\<open>str(e)\<close>; it stands for every subclass of \<^verbatim>\<open>OSError\<close> too.
  \<open>SystemExit n\<close> is what \<^verbatim>\<open>sys.exit(n)\<close> raises.
\<close>

datatype exn =
    OSError "int option" string
  | CancelledError
  | KeyboardInterrupt
  | SystemExit int
  | KeyError string
  | OtherException string

subsection \<open>Traces of library calls\<close>

text \<open>
  One event per call the command makes on something outside itself. A server object is
  named by a number (see \<open>grpc_aio_server\<close>), so that the calls made on one server can be
  told from those on another.
\<close>

datatype event =
    StdoutWrite string
  | StderrWrite string
  | GrpcAioServer "(string \<times> pyval) list" "string list"
  | RootHandlersHook nat
  | AddInsecurePort nat pyval
  | ServerStart nat
  | WaitForTermination nat
  | ServerStop nat pyval
  | RaiseLastException
  | Check bool
  | CheckMigrations
  | RunWithReloader
  | AutoreloadMain

type_synonym trace = "event list"

text \<open>
  How a piece of the command ends: it returns, it raises, or the process is gone
  (\<^verbatim>\<open>os._exit\<close>, which no handler can catch).
\<close>

datatype 'a result = Return 'a | Raised exn | ProcessExit int

type_synonym 'a io = "trace \<Rightarrow> 'a result \<times> trace"

text \<open>
  The libraries: given the calls made so far and the call being made, \<open>None\<close> when it
  returns and \<open>Some e\<close> when it raises \<open>e\<close>.
\<close>

type_synonym env = "trace \<Rightarrow> event \<Rightarrow> exn option"

definition return_io :: "'a \<Rightarrow> 'a io" where
  "return_io x tr = (Return x, tr)"

definition bind_io :: "'a io \<Rightarrow> ('a \<Rightarrow> 'b io) \<Rightarrow> 'b io" where
  "bind_io m f tr =
     (case m tr of
        (Return x, tr') \<Rightarrow> f x tr'
      | (Raised e, tr') \<Rightarrow> (Raised e, tr')
      | (ProcessExit n, tr') \<Rightarrow> (ProcessExit n, tr'))"

definition then_io :: "unit io \<Rightarrow> 'b io \<Rightarrow> 'b io" where
  "then_io m k = bind_io m (\<lambda>_. k)"

text \<open>
  \<^verbatim>\<open>try: m except ...\<close>: the handler table \<open>h\<close> gives the handler of the exceptions
  some \<^verbatim>\<open>except\<close> clause matches and \<open>None\<close> for the others, which propagate.
\<close>

definition try_except :: "'a io \<Rightarrow> (exn \<Rightarrow> 'a io option) \<Rightarrow> 'a io" where
  "try_except m h tr =
     (case m tr of
        (Raised e, tr') \<Rightarrow> (case h e of Some k \<Rightarrow> k tr' | None \<Rightarrow> (Raised e, tr'))
      | (Return x, tr') \<Rightarrow> (Return x, tr')
      | (ProcessExit n, tr') \<Rightarrow> (ProcessExit n, tr'))"

text \<open>A call on a library: recorded, then it returns or raises as the libraries decide.\<close>

definition call :: "env \<Rightarrow> event \<Rightarrow> unit io" where
  "call env c tr =
     (case env tr c of None \<Rightarrow> (Return (), tr @ [c]) | Some e \<Rightarrow> (Raised e, tr @ [c]))"

text \<open>
  \<^verbatim>\<open>self.stdout.write\<close> and \<^verbatim>\<open>self.stderr.write\<close>: the event holds the string the command
  passes. The streams are taken to accept every write.
\<close>

definition stdout_write :: "string \<Rightarrow> unit io" where
  "stdout_write s tr = (Return (), tr @ [StdoutWrite s])"

definition stderr_write :: "string \<Rightarrow> unit io" where
  "stderr_write s tr = (Return (), tr @ [StderrWrite s])"

text \<open>
  \<^verbatim>\<open>grpc.aio.server(options=..., interceptors=...)\<close>: the new server is named by the
  position of its construction in the trace.
\<close>

definition grpc_aio_server :: "env \<Rightarrow> (string \<times> pyval) list \<Rightarrow> string list \<Rightarrow> nat io" where
  "grpc_aio_server env opts ics tr =
     (case env tr (GrpcAioServer opts ics) of
        None \<Rightarrow> (Return (length tr), tr @ [GrpcAioServer opts ics])
      | Some e \<Rightarrow> (Raised e, tr @ [GrpcAioServer opts ics]))"

definition sys_exit :: "int \<Rightarrow> 'a io" where
  "sys_exit n tr = (Raised (SystemExit n), tr)"

definition os_exit :: "int \<Rightarrow> 'a io" where
  "os_exit n tr = (ProcessExit n, tr)"

text \<open>
  \<^verbatim>\<open>asyncio.run(coro)\<close> and \<^verbatim>\<open>await\<close>: the event loop is not part of the repository. The
  coroutine is run to its end, and what the coroutine itself raises comes out of
  \<^verbatim>\<open>asyncio.run\<close>. Signals are not modelled: which thread a keyboard interrupt reaches and
  how the event loop hands it to the running task (as a cancellation of the task, in the
  main thread) is the work of the interpreter and of \<^verbatim>\<open>asyncio\<close>. A cancellation is
  modelled where it arrives, as the \<^verbatim>\<open>CancelledError\<close> raised by the call being awaited.
\<close>

definition asyncio_run :: "'a io \<Rightarrow> 'a io" where
  "asyncio_run m = m"

subsection \<open>What the command is given\<close>

text \<open>
  \<^verbatim>\<open>grpc_settings\<close> comes from \<^verbatim>\<open>django_grpc_framework.settings\<close>, which is not among the
  sources: its two values are parameters (the hook is a library call).
\<close>

record grpc_settings =
  SERVER_OPTIONS :: "(string \<times> pyval) list"
  SERVER_INTERCEPTORS :: "string list"

text \<open>
  The values \<^verbatim>\<open>inner_run\<close> reads from its surroundings: the formatted time, Django's
  version, \<^verbatim>\<open>repr(settings.SETTINGS_MODULE)\<close>, \<^verbatim>\<open>sys.platform\<close> and the three constants of
  the \<^verbatim>\<open>errno\<close> module, whose numbers depend on the platform.
\<close>

record host =
  now :: string
  version :: string
  settings_repr :: string
  sys_platform :: string
  EACCES :: int
  EADDRINUSE :: int
  EADDRNOTAVAIL :: int

text \<open>
  \<^verbatim>\<open>django.utils.autoreload\<close>: \<open>run_with_reloader\<close> is \<open>None\<close> where the module has no
  such attribute. Both entry points are given the call \<^verbatim>\<open>main_func(*args, **kwargs)\<close> they
  are to make, as a computation, and decide how often and when to run it.
\<close>

record autoreload =
  run_with_reloader :: "(unit io \<Rightarrow> unit io) option"
  main :: "unit io \<Rightarrow> unit io"

text \<open>The attributes \<^verbatim>\<open>handle\<close> sets on the command object.\<close>

record command =
  address :: pyval
  development_mode :: pyval
  max_workers :: pyval

type_synonym options = "(string \<times> pyval) list"

subsection \<open>add_arguments\<close>

datatype nargs = NargsNone | NargsOptional
datatype argtype = TypeNone | TypeInt
datatype action = Store | StoreTrue

record argument =
  arg_name :: string
  arg_nargs :: nargs
  arg_type :: argtype
  arg_default :: "pyval option"
  arg_dest :: "string option"
  arg_action :: action
  arg_help :: string

text \<open>The parser is the list of the arguments added to it so far.\<close>

definition add_argument :: "argument list \<Rightarrow> argument \<Rightarrow> argument list" where
  "add_argument parser a = parser @ [a]"

definition add_arguments :: "argument list \<Rightarrow> argument list" where
  "add_arguments parser =
     add_argument
       (add_argument
          (add_argument parser
             \<lparr>arg_name = ''address'', arg_nargs = NargsOptional, arg_type = TypeNone,
              arg_default = Some (PyStr ''[::]:50051''), arg_dest = None, arg_action = Store,
              arg_help = ''Optional address for which to open a port.''\<rparr>)
          \<lparr>arg_name = ''--max-workers'', arg_nargs = NargsNone, arg_type = TypeInt,
           arg_default = Some (PyInt 10), arg_dest = Some ''max_workers'', arg_action = Store,
           arg_help = ''Number of maximum worker threads.''\<rparr>)
       \<lparr>arg_name = ''--dev'', arg_nargs = NargsNone, arg_type = TypeNone,
        arg_default = None, arg_dest = Some ''development_mode'', arg_action = StoreTrue,
        arg_help = ''Run the server in development mode. This tells Django to use ''
                   @ ''the auto-reloader and run checks.''\<rparr>"

subsection \<open>_serve\<close>

text \<open>
  Lines 55 to 63 of \<^verbatim>\<open>_serve\<close>: the server is built, handed to the hook, given its port
  and started. The value is the server.
\<close>

definition serve_startup :: "grpc_settings \<Rightarrow> env \<Rightarrow> command \<Rightarrow> nat io" where
  "serve_startup gs env self =
     bind_io (grpc_aio_server env (SERVER_OPTIONS gs) (SERVER_INTERCEPTORS gs)) (\<lambda>server.
     then_io (call env (RootHandlersHook server))
    (then_io (call env (AddInsecurePort server (address self)))
    (then_io (stdout_write ''gRPC server started and listening.'')
    (then_io (call env (ServerStart server))
    (return_io server)))))"

text \<open>
  \<^verbatim>\<open>_serve\<close> (a leading underscore is no Isabelle name): the lines above, then the
  \<^verbatim>\<open>try\<close> block of lines 65 to 69, whose only \<^verbatim>\<open>except\<close> clause is for
  \<^verbatim>\<open>asyncio.CancelledError\<close>.
\<close>

definition serve :: "grpc_settings \<Rightarrow> env \<Rightarrow> command \<Rightarrow> unit io" where
  "serve gs env self =
     bind_io (serve_startup gs env self) (\<lambda>server.
     try_except (call env (WaitForTermination server))
       (\<lambda>e. case e of
          CancelledError \<Rightarrow>
            Some (then_io (stdout_write ''Shutting down gRPC server...'')
                          (call env (ServerStop server PyNone)))
        | _ \<Rightarrow> None))"

subsection \<open>inner_run\<close>

text \<open>The dictionary literal \<^verbatim>\<open>ERRORS\<close>: a later key replaces an equal earlier one.\<close>

definition ERRORS :: "host \<Rightarrow> int \<rightharpoonup> string" where
  "ERRORS h =
     [EACCES h \<mapsto> ''You don't have permission to access that port.'',
      EADDRINUSE h \<mapsto> ''That port is already in use.'',
      EADDRNOTAVAIL h \<mapsto> ''That IP address can't be assigned to.'']"

text \<open>\<^verbatim>\<open>ERRORS.get(e.errno, str(e))\<close>; an \<^verbatim>\<open>errno\<close> of \<^verbatim>\<open>None\<close> is no key.\<close>

definition error_text :: "host \<Rightarrow> int option \<Rightarrow> string \<Rightarrow> string" where
  "error_text h en s =
     (case en of
        None \<Rightarrow> s
      | Some n \<Rightarrow> (case ERRORS h n of Some m \<Rightarrow> m | None \<Rightarrow> s))"

definition quit_command :: "host \<Rightarrow> string" where
  "quit_command h = (if sys_platform h = ''win32'' then ''CTRL-BREAK'' else ''CONTROL-C'')"

definition banner :: "host \<Rightarrow> command \<Rightarrow> string" where
  "banner h self =
     ''Django version '' @ version h @ '', using settings '' @ settings_repr h @ [CHR 0x0A]
     @ ''Starting development gRPC server at '' @ py_str (address self) @ [CHR 0x0A]
     @ ''Quit the server with '' @ quit_command h @ ''.'' @ [CHR 0x0A]"

text \<open>
  Lines 72 to 89 of \<^verbatim>\<open>inner_run\<close>: the last reload exception is raised again, the
  configuration is checked, the time and the banner are written.
\<close>

definition inner_run_checks :: "host \<Rightarrow> env \<Rightarrow> command \<Rightarrow> unit io" where
  "inner_run_checks h env self =
     then_io (call env RaiseLastException)
    (then_io (stdout_write (''Performing system checks...'' @ [CHR 0x0A, CHR 0x0A]))
    (then_io (call env (Check True))
    (then_io (call env CheckMigrations)
    (then_io (stdout_write (now h))
    (stdout_write (banner h self))))))"

text \<open>
  \<^verbatim>\<open>inner_run(self, *args, **options)\<close> reads neither \<open>args\<close> nor \<open>opts\<close>: the lines
  above, then the \<^verbatim>\<open>try\<close> block of lines 91 to 103. The handler table has the two
  \<^verbatim>\<open>except\<close> clauses in the order of the source.
\<close>

definition inner_run ::
  "host \<Rightarrow> grpc_settings \<Rightarrow> env \<Rightarrow> command \<Rightarrow> pyval list \<Rightarrow> options \<Rightarrow> unit io" where
  "inner_run h gs env self args opts =
     then_io (inner_run_checks h env self)
    (try_except (asyncio_run (serve gs env self))
       (\<lambda>e. case e of
          OSError en s \<Rightarrow>
            Some (then_io (stderr_write (''Error: '' @ error_text h en s)) (os_exit 1))
        | KeyboardInterrupt \<Rightarrow> Some (sys_exit 0)
        | _ \<Rightarrow> None))"

subsection \<open>run and handle\<close>

definition run ::
  "autoreload \<Rightarrow> host \<Rightarrow> grpc_settings \<Rightarrow> env \<Rightarrow> command \<Rightarrow> options \<Rightarrow> unit io" where
  "run ar h gs env self opts =
     (if py_truthy (development_mode self) then
        (case run_with_reloader ar of
           Some rwr \<Rightarrow>
             (\<lambda>tr. rwr (inner_run h gs env self [] opts) (tr @ [RunWithReloader]))
         | None \<Rightarrow>
             (\<lambda>tr. main ar (inner_run h gs env self [] opts) (tr @ [AutoreloadMain])))
      else
        then_io (stdout_write (''Starting gRPC server at '' @ py_str (address self) @ [CHR 0x0A]))
                (serve gs env self))"

text \<open>
  \<^verbatim>\<open>handle(self, *args, **options)\<close>: \<^verbatim>\<open>options[k]\<close> raises \<^verbatim>\<open>KeyError\<close> on a missing key.
  The value is how the command ended, the trace, and the command object as it is left.
\<close>

definition handle ::
  "autoreload \<Rightarrow> host \<Rightarrow> grpc_settings \<Rightarrow> env \<Rightarrow> command \<Rightarrow> pyval list \<Rightarrow> options \<Rightarrow>
   trace \<Rightarrow> (unit result \<times> trace) \<times> command" where
  "handle ar h gs env self args opts tr =
     (case map_of opts ''address'' of
        None \<Rightarrow> ((Raised (KeyError ''address''), tr), self)
      | Some a \<Rightarrow>
          (let self1 = self\<lparr>address := a\<rparr> in
           case map_of opts ''development_mode'' of
             None \<Rightarrow> ((Raised (KeyError ''development_mode''), tr), self1)
           | Some d \<Rightarrow>
               (let self2 = self1\<lparr>development_mode := d\<rparr> in
                case map_of opts ''max_workers'' of
                  None \<Rightarrow> ((Raised (KeyError ''max_workers''), tr), self2)
                | Some w \<Rightarrow>
                    (let self3 = self2\<lparr>max_workers := w\<rparr> in
                     (asyncio_run (run ar h gs env self3 opts) tr, self3)))))"

subsection \<open>The argument parser\<close>

text \<open>
  \<^verbatim>\<open>argparse\<close> is Python's, not the repository's. What the three declarations use of it:
  the attribute an argument is stored under, the value it has when the command line does
  not give it, and the conversion and storing of the arguments the command line gives.
  How \<^verbatim>\<open>argparse\<close> cuts the command line into arguments is left out: \<open>parse_args\<close> is
  given the arguments found, each as the name it was declared with and its text.
\<close>

definition dest_of :: "argument \<Rightarrow> string" where
  "dest_of a =
     (case arg_dest a of
        Some d \<Rightarrow> d
      | None \<Rightarrow> map (\<lambda>c. if c = CHR ''-'' then CHR ''_'' else c)
                   (dropWhile (\<lambda>c. c = CHR ''-'') (arg_name a)))"

definition default_of :: "argument \<Rightarrow> pyval" where
  "default_of a =
     (case arg_default a of
        Some v \<Rightarrow> v
      | None \<Rightarrow> (case arg_action a of StoreTrue \<Rightarrow> PyBool False | Store \<Rightarrow> PyNone))"

definition initial_namespace :: "argument list \<Rightarrow> options" where
  "initial_namespace parser = map (\<lambda>a. (dest_of a, default_of a)) parser"

text \<open>A text the parser rejects ends the command with \<^verbatim>\<open>SystemExit(2)\<close>.\<close>

definition convert :: "(string \<Rightarrow> int option) \<Rightarrow> argument \<Rightarrow> string \<Rightarrow> exn + pyval" where
  "convert int_of a s =
     (case arg_action a of
        StoreTrue \<Rightarrow> Inr (PyBool True)
      | Store \<Rightarrow>
          (case arg_type a of
             TypeNone \<Rightarrow> Inr (PyStr s)
           | TypeInt \<Rightarrow> (case int_of s of Some i \<Rightarrow> Inr (PyInt i) | None \<Rightarrow> Inl (SystemExit 2))))"

fun store_found ::
  "(string \<Rightarrow> int option) \<Rightarrow> argument list \<Rightarrow> (string \<times> string) list \<Rightarrow> options \<Rightarrow> exn + options" where
  "store_found int_of parser [] ns = Inr ns"
| "store_found int_of parser ((name, s) # found) ns =
     (case find (\<lambda>a. arg_name a = name) parser of
        None \<Rightarrow> Inl (SystemExit 2)
      | Some a \<Rightarrow>
          (case convert int_of a s of
             Inl e \<Rightarrow> Inl e
           | Inr v \<Rightarrow> store_found int_of parser found (AList.update (dest_of a) v ns)))"

definition parse_args ::
  "(string \<Rightarrow> int option) \<Rightarrow> argument list \<Rightarrow> (string \<times> string) list \<Rightarrow> exn + options" where
  "parse_args int_of parser found = store_found int_of parser found (initial_namespace parser)"

subsection \<open>Vocabulary of the properties\<close>

text \<open>The calls \<^verbatim>\<open>_serve\<close> makes on the gRPC runtime when nothing raises, in source order.\<close>

definition serve_calls :: "grpc_settings \<Rightarrow> command \<Rightarrow> nat \<Rightarrow> event list" where
  "serve_calls gs self server =
     [GrpcAioServer (SERVER_OPTIONS gs) (SERVER_INTERCEPTORS gs),
      RootHandlersHook server,
      AddInsecurePort server (address self),
      ServerStart server,
      WaitForTermination server]"

fun is_write :: "event \<Rightarrow> bool" where
  "is_write (StdoutWrite s) = True"
| "is_write (StderrWrite s) = True"
| "is_write e = False"

definition library_calls :: "trace \<Rightarrow> trace" where
  "library_calls evs = filter (\<lambda>e. \<not> is_write e) evs"

fun is_server_call :: "event \<Rightarrow> bool" where
  "is_server_call (GrpcAioServer opts ics) = True"
| "is_server_call (RootHandlersHook server) = True"
| "is_server_call (AddInsecurePort server a) = True"
| "is_server_call (ServerStart server) = True"
| "is_server_call (WaitForTermination server) = True"
| "is_server_call (ServerStop server g) = True"
| "is_server_call e = False"

text \<open>The calls only development mode makes: the reloader, the checks.\<close>

fun is_dev_call :: "event \<Rightarrow> bool" where
  "is_dev_call RaiseLastException = True"
| "is_dev_call (Check b) = True"
| "is_dev_call CheckMigrations = True"
| "is_dev_call RunWithReloader = True"
| "is_dev_call AutoreloadMain = True"
| "is_dev_call e = False"

text \<open>
  A parser whose earlier arguments (those of the base command) use none of the names and
  none of the attributes of the three arguments that \<open>add_arguments\<close> adds.
\<close>

definition no_clash :: "argument list \<Rightarrow> bool" where
  "no_clash parser =
     list_all (\<lambda>a. arg_name a \<notin> {''address'', ''--max-workers'', ''--dev''} \<and>
                    dest_of a \<notin> {''address'', ''max_workers'', ''development_mode''}) parser"

text \<open>The events a computation adds to the trace it starts from.\<close>

definition added :: "'a io \<Rightarrow> trace \<Rightarrow> trace" where
  "added m tr = drop (length tr) (snd (m tr))"

definition checks_sequence :: "event list" where
  "checks_sequence =
     [RaiseLastException,
      StdoutWrite (''Performing system checks...'' @ [CHR 0x0A, CHR 0x0A]),
      Check True,
      CheckMigrations]"

subsection \<open>Concrete inputs\<close>

definition linux :: host where
  "linux =
     \<lparr>now = ''November 04, 2026 - 21:25:00'', version = ''4.2'',
      settings_repr = [CHR 0x27] @ ''project.settings'' @ [CHR 0x27],
      sys_platform = ''linux'', EACCES = 13, EADDRINUSE = 98, EADDRNOTAVAIL = 99\<rparr>"

definition settings0 :: grpc_settings where
  "settings0 = \<lparr>SERVER_OPTIONS = [], SERVER_INTERCEPTORS = []\<rparr>"

definition self0 :: command where
  "self0 = \<lparr>address = PyNone, development_mode = PyNone, max_workers = PyNone\<rparr>"

definition production :: command where
  "production =
     \<lparr>address = PyStr ''[::]:50051'', development_mode = PyBool False, max_workers = PyInt 10\<rparr>"

definition development :: command where
  "development =
     \<lparr>address = PyStr ''[::]:50051'', development_mode = PyBool True, max_workers = PyInt 10\<rparr>"

definition production_options :: options where
  "production_options =
     [(''address'', PyStr ''[::]:50051''), (''max_workers'', PyInt 10),
      (''development_mode'', PyBool False)]"

text \<open>Libraries in which every call returns.\<close>

definition all_return :: env where
  "all_return tr c = None"

text \<open>Libraries in which binding the port fails with the given \<^verbatim>\<open>OSError\<close>.\<close>

definition bind_fails :: "int option \<Rightarrow> string \<Rightarrow> env" where
  "bind_fails en s tr c =
     (case c of AddInsecurePort server a \<Rightarrow> Some (OSError en s) | _ \<Rightarrow> None)"

text \<open>Libraries in which the wait for termination is cancelled.\<close>

definition cancelled :: env where
  "cancelled tr c = (case c of WaitForTermination server \<Rightarrow> Some CancelledError | _ \<Rightarrow> None)"

text \<open>A reloader that starts the command once, and once more after a change.\<close>

definition start_twice :: "unit io \<Rightarrow> unit io" where
  "start_twice m tr = (case m tr of (r, tr') \<Rightarrow> m tr')"

definition reloader0 :: autoreload where
  "reloader0 = \<lparr>run_with_reloader = Some start_twice, main = start_twice\<rparr>"

text \<open>A parser that has one argument of the base command already.\<close>

definition base_parser :: "argument list" where
  "base_parser =
     [\<lparr>arg_name = ''--traceback'', arg_nargs = NargsNone, arg_type = TypeNone,
       arg_default = None, arg_dest = None, arg_action = StoreTrue,
       arg_help = ''Raise on CommandError exceptions.''\<rparr>]"

text \<open>A conversion that knows one text, enough for the examples.\<close>

definition int_of0 :: "string \<Rightarrow> int option" where
  "int_of0 s = (if s = ''4'' then Some 4 else None)"

section \<open>Properties\<close>

lemmas io_defs = bind_io_def then_io_def try_except_def call_def stdout_write_def
  stderr_write_def grpc_aio_server_def return_io_def sys_exit_def os_exit_def asyncio_run_def

lemma serve_startup_trace:
  "serve_startup gs env self tr = (r, tr1) \<Longrightarrow>
   take (length tr) tr1 = tr \<and>
   (case r of
      Return server \<Rightarrow>
        server = length tr \<and>
        library_calls (drop (length tr) tr1) = take 4 (serve_calls gs self (length tr))
    | Raised e \<Rightarrow>
        prefix (library_calls (drop (length tr) tr1)) (take 4 (serve_calls gs self (length tr)))
    | ProcessExit n \<Rightarrow> False)"
  unfolding serve_startup_def io_defs serve_calls_def library_calls_def
  by (auto split: option.splits)

lemma serve_after_startup:
  "serve_startup gs env self tr = (Return server, tr1) \<Longrightarrow>
   serve gs env self tr =
     (case env tr1 (WaitForTermination server) of
        None \<Rightarrow> (Return (), tr1 @ [WaitForTermination server])
      | Some CancelledError \<Rightarrow>
          ((case env (tr1 @ [WaitForTermination server, StdoutWrite ''Shutting down gRPC server...''])
                  (ServerStop server PyNone) of None \<Rightarrow> Return () | Some e \<Rightarrow> Raised e),
           tr1 @ [WaitForTermination server, StdoutWrite ''Shutting down gRPC server...'',
                  ServerStop server PyNone])
      | Some e \<Rightarrow> (Raised e, tr1 @ [WaitForTermination server]))"
  unfolding serve_def io_defs
  by (auto split: option.splits exn.splits)

lemma serve_startup_fails:
  "serve_startup gs env self tr = (Raised e, tr1) \<Longrightarrow> serve gs env self tr = (Raised e, tr1)"
  "serve_startup gs env self tr \<noteq> (ProcessExit n, tr1)"
  unfolding serve_def bind_io_def using serve_startup_trace[of gs env self tr "ProcessExit n" tr1]
  by auto

lemma serve_trace_shape:
  "take (length tr) (snd (serve gs env self tr)) = tr \<and>
   prefix (library_calls (added (serve gs env self) tr))
          (serve_calls gs self (length tr) @ [ServerStop (length tr) PyNone]) \<and>
   (fst (serve gs env self tr) = Return () \<longrightarrow>
      prefix (serve_calls gs self (length tr)) (library_calls (added (serve gs env self) tr)))"
proof -
  obtain r tr1 where st: "serve_startup gs env self tr = (r, tr1)"
    by (cases "serve_startup gs env self tr")
  note tr = serve_startup_trace[OF st]
  then have tk: "take (length tr) tr1 = tr" by simp
  have "length (take (length tr) tr1) = length tr"
    by (simp only: tk)
  then have len: "length tr \<le> length tr1"
    by simp
  show ?thesis
  proof (cases r)
    case (Return server)
    then have st': "serve_startup gs env self tr = (Return (length tr), tr1)"
      and lc4: "library_calls (drop (length tr) tr1) = take 4 (serve_calls gs self (length tr))"
      using st tr by auto
    show ?thesis
      using serve_after_startup[OF st'] tk len lc4
      by (auto simp: added_def library_calls_def serve_calls_def
               split: option.splits exn.splits)
  next
    case (Raised e)
    then have sv: "serve gs env self tr = (Raised e, tr1)"
      using serve_startup_fails(1) st by simp
    have "prefix (library_calls (drop (length tr) tr1)) (take 4 (serve_calls gs self (length tr)))"
      using tr Raised by simp
    then have "prefix (library_calls (drop (length tr) tr1))
                 (serve_calls gs self (length tr) @ [ServerStop (length tr) PyNone])"
      by (meson prefix_order.trans take_is_prefix prefix_prefix)
    then show ?thesis
      using tk sv by (simp add: added_def)
  next
    case (ProcessExit n)
    then show ?thesis using tr by simp
  qed
qed

text \<open>
  C2. Whatever the libraries do, \<^verbatim>\<open>_serve\<close> only adds to the trace, and its calls on the
  gRPC runtime are an initial part of this sequence: build the server from the configured
  options and interceptors, call the root handlers hook on that server, add the insecure
  port for the address, start the server, wait for its termination (and stop it, which only
  a cancelled wait leads to). The sequence is cut short only where a call raises: when
  \<^verbatim>\<open>_serve\<close> returns, all five calls were made. So the hook is always called before
  the port is added and before the server is started.
\<close>

theorem serve_order:
  "take (length tr) (snd (serve gs env self tr)) = tr \<and>
   prefix (library_calls (added (serve gs env self) tr))
          (serve_calls gs self (length tr) @ [ServerStop (length tr) PyNone]) \<and>
   (fst (serve gs env self tr) = Return () \<longrightarrow>
      prefix (serve_calls gs self (length tr)) (library_calls (added (serve gs env self) tr)))"
  by (rule serve_trace_shape)

theorem serve_order_witness:
  "fst (serve settings0 all_return production []) = Return () \<and>
   prefix (serve_calls settings0 production 0)
          (library_calls (added (serve settings0 all_return production) []))"
  using serve_order[of "[]" settings0 all_return production]
  by (simp add: serve_def serve_startup_def io_defs all_return_def)

text \<open>
  C4. Once the server is started, a \<^verbatim>\<open>CancelledError\<close> raised by the wait for termination
  makes \<^verbatim>\<open>_serve\<close> write "Shutting down gRPC server..." and call \<^verbatim>\<open>stop(grace=None)\<close> on
  the server, and nothing else; the cancellation is not raised again: \<^verbatim>\<open>_serve\<close> ends as
  the call of \<^verbatim>\<open>stop\<close> ends, returning when that returns.
\<close>

theorem serve_cancelled:
  assumes "serve_startup gs env self tr = (Return server, tr1)"
    and "env tr1 (WaitForTermination server) = Some CancelledError"
  shows "serve gs env self tr =
           ((case env (tr1 @ [WaitForTermination server,
                              StdoutWrite ''Shutting down gRPC server...''])
                      (ServerStop server PyNone) of
               None \<Rightarrow> Return ()
             | Some e \<Rightarrow> Raised e),
            tr1 @ [WaitForTermination server,
                   StdoutWrite ''Shutting down gRPC server...'',
                   ServerStop server PyNone])"
  using serve_after_startup[OF assms(1)] assms(2) by simp

theorem serve_cancelled_witness:
  "serve_startup settings0 cancelled production [] =
     (Return 0,
      [GrpcAioServer [] [], RootHandlersHook 0, AddInsecurePort 0 (PyStr ''[::]:50051''),
       StdoutWrite ''gRPC server started and listening.'', ServerStart 0]) \<and>
   cancelled
     [GrpcAioServer [] [], RootHandlersHook 0, AddInsecurePort 0 (PyStr ''[::]:50051''),
      StdoutWrite ''gRPC server started and listening.'', ServerStart 0]
     (WaitForTermination 0) = Some CancelledError \<and>
   serve settings0 cancelled production [] =
     (Return (),
      [GrpcAioServer [] [], RootHandlersHook 0, AddInsecurePort 0 (PyStr ''[::]:50051''),
       StdoutWrite ''gRPC server started and listening.'', ServerStart 0,
       WaitForTermination 0, StdoutWrite ''Shutting down gRPC server...'',
       ServerStop 0 PyNone])"
proof -
  have s: "serve_startup settings0 cancelled production [] =
     (Return 0,
      [GrpcAioServer [] [], RootHandlersHook 0, AddInsecurePort 0 (PyStr ''[::]:50051''),
       StdoutWrite ''gRPC server started and listening.'', ServerStart 0])"
    by (simp add: serve_startup_def io_defs cancelled_def settings0_def production_def)
  have c: "cancelled
     [GrpcAioServer [] [], RootHandlersHook 0, AddInsecurePort 0 (PyStr ''[::]:50051''),
      StdoutWrite ''gRPC server started and listening.'', ServerStart 0]
     (WaitForTermination 0) = Some CancelledError"
    by (simp add: cancelled_def)
  have e: "cancelled
     ([GrpcAioServer [] [], RootHandlersHook 0, AddInsecurePort 0 (PyStr ''[::]:50051''),
       StdoutWrite ''gRPC server started and listening.'', ServerStart 0]
      @ [WaitForTermination 0, StdoutWrite ''Shutting down gRPC server...''])
     (ServerStop 0 PyNone) = None"
    by (simp add: cancelled_def)
  show ?thesis
    using serve_cancelled[OF s c] s c e by simp
qed

lemma serve_adds:
  "snd (serve gs env self tr) = tr @ added (serve gs env self) tr"
proof -
  have "take (length tr) (snd (serve gs env self tr)) = tr"
    using serve_trace_shape[of tr gs env self] by simp
  then show ?thesis
    unfolding added_def by (metis append_take_drop_id)
qed

lemma serve_added_calls:
  assumes "e \<in> set (added (serve gs env self) tr)"
  shows "(is_write e \<or> is_server_call e) \<and> \<not> is_dev_call e"
proof (cases "is_write e")
  case True
  then show ?thesis by (cases e) auto
next
  case False
  then have "e \<in> set (library_calls (added (serve gs env self) tr))"
    using assms by (simp add: library_calls_def)
  moreover have "prefix (library_calls (added (serve gs env self) tr))
          (serve_calls gs self (length tr) @ [ServerStop (length tr) PyNone])"
    using serve_trace_shape[of tr gs env self] by simp
  ultimately have "e \<in> set (serve_calls gs self (length tr) @ [ServerStop (length tr) PyNone])"
    using set_mono_prefix by blast
  then show ?thesis
    by (auto simp: serve_calls_def)
qed


lemma inner_run_after_checks:
  "inner_run_checks h env self tr = (Return (), tr1) \<Longrightarrow>
   inner_run h gs env self args opts tr =
     (case serve gs env self tr1 of
        (Raised (OSError en s), tr2) \<Rightarrow>
          (ProcessExit 1, tr2 @ [StderrWrite (''Error: '' @ error_text h en s)])
      | (Raised KeyboardInterrupt, tr2) \<Rightarrow> (Raised (SystemExit 0), tr2)
      | (r, tr2) \<Rightarrow> (r, tr2))"
  unfolding inner_run_def io_defs
  by (auto split: prod.splits result.splits exn.splits)


lemma error_text_known:
  assumes "distinct [EACCES h, EADDRINUSE h, EADDRNOTAVAIL h]"
  shows "error_text h (Some (EACCES h)) s = ''You don't have permission to access that port.''"
    and "error_text h (Some (EADDRINUSE h)) s = ''That port is already in use.''"
    and "error_text h (Some (EADDRNOTAVAIL h)) s = ''That IP address can't be assigned to.''"
  using assms by (auto simp: error_text_def ERRORS_def)

lemma error_text_unknown:
  assumes "en \<notin> {Some (EACCES h), Some (EADDRINUSE h), Some (EADDRNOTAVAIL h)}"
  shows "error_text h en s = s"
  using assms by (auto simp: error_text_def ERRORS_def split: option.splits)

lemma run_production:
  "\<not> py_truthy (development_mode self) \<Longrightarrow>
   run ar h gs env self opts tr =
     serve gs env self
       (tr @ [StdoutWrite (''Starting gRPC server at '' @ py_str (address self) @ [CHR 0x0A])])"
  unfolding run_def io_defs by simp



text \<open>
  C1, as amended. Let the three \<^verbatim>\<open>errno\<close> constants be distinct. In development mode,
  that is in \<^verbatim>\<open>inner_run\<close> once its checks have returned: when \<^verbatim>\<open>_serve\<close> raises an
  \<^verbatim>\<open>OSError\<close> whose \<^verbatim>\<open>errno\<close> is \<^verbatim>\<open>EACCES\<close>, \<^verbatim>\<open>EADDRINUSE\<close> or \<^verbatim>\<open>EADDRNOTAVAIL\<close>,
  the command writes "Error: " and then "You don't have permission to access that port.",
  "That port is already in use." or "That IP address can't be assigned to." respectively
  to stderr and ends the process with status 1 at once: nothing follows the write. Without
  development mode, \<^verbatim>\<open>run\<close> has no handler: the \<^verbatim>\<open>OSError\<close> of \<^verbatim>\<open>_serve\<close> comes out of
  \<^verbatim>\<open>run\<close> as it is, and the command writes nothing after what \<^verbatim>\<open>_serve\<close> wrote.
\<close>

theorem bind_failure_exits:
  assumes "distinct [EACCES h, EADDRINUSE h, EADDRNOTAVAIL h]"
  shows
   "(inner_run_checks h env self tr = (Return (), tra) \<and>
     serve gs env self tra = (Raised (OSError (Some n) s), trb) \<longrightarrow>
       (n = EACCES h \<longrightarrow>
          inner_run h gs env self args opts tr =
            (ProcessExit 1,
             trb @ [StderrWrite ''Error: You don't have permission to access that port.''])) \<and>
       (n = EADDRINUSE h \<longrightarrow>
          inner_run h gs env self args opts tr =
            (ProcessExit 1, trb @ [StderrWrite ''Error: That port is already in use.''])) \<and>
       (n = EADDRNOTAVAIL h \<longrightarrow>
          inner_run h gs env self args opts tr =
            (ProcessExit 1,
             trb @ [StderrWrite ''Error: That IP address can't be assigned to.'']))) \<and>
    (\<not> py_truthy (development_mode self) \<and>
     serve gs env self
       (tr @ [StdoutWrite (''Starting gRPC server at '' @ py_str (address self) @ [CHR 0x0A])]) =
       (Raised (OSError en s), trb) \<longrightarrow>
       run ar h gs env self opts tr = (Raised (OSError en s), trb))"
  using error_text_known[OF assms]
  by (auto simp: inner_run_after_checks run_production)

text \<open>
  C9. In development mode (in \<^verbatim>\<open>inner_run\<close>, once its checks have returned), when
  \<^verbatim>\<open>_serve\<close> raises an \<^verbatim>\<open>OSError\<close> whose \<^verbatim>\<open>errno\<close> is none of \<^verbatim>\<open>EACCES\<close>,
  \<^verbatim>\<open>EADDRINUSE\<close>, \<^verbatim>\<open>EADDRNOTAVAIL\<close> (or is \<^verbatim>\<open>None\<close>), the command writes "Error: "
  followed by \<^verbatim>\<open>str(e)\<close> to stderr and ends the process with status 1.
\<close>

theorem unknown_oserror_exits:
  assumes "inner_run_checks h env self tr = (Return (), tra)"
    and "serve gs env self tra = (Raised (OSError en s), trb)"
    and "en \<notin> {Some (EACCES h), Some (EADDRINUSE h), Some (EADDRNOTAVAIL h)}"
  shows "inner_run h gs env self args opts tr = (ProcessExit 1, trb @ [StderrWrite (''Error: '' @ s)])"
  using inner_run_after_checks[OF assms(1), of gs args opts] assms(2) error_text_unknown[OF assms(3)]
  by simp


text \<open>
  C6. Without development mode \<^verbatim>\<open>run\<close> writes "Starting gRPC server at", the address
  and a newline, and goes on as \<^verbatim>\<open>_serve\<close> does; whatever the reloader is, it is not
  called, and no system check, migration check or re-raising of a reload exception is made.
\<close>

theorem production_mode_serves_directly:
  assumes "\<not> py_truthy (development_mode self)"
  shows "run ar h gs env self opts tr =
           serve gs env self
             (tr @ [StdoutWrite (''Starting gRPC server at '' @ py_str (address self)
                                 @ [CHR 0x0A])]) \<and>
         \<not> list_ex is_dev_call (added (run ar h gs env self opts) tr)"
proof -
  let ?w = "StdoutWrite (''Starting gRPC server at '' @ py_str (address self) @ [CHR 0x0A])"
  have r: "run ar h gs env self opts tr = serve gs env self (tr @ [?w])"
    using run_production[OF assms] by simp
  define evs where "evs = added (serve gs env self) (tr @ [?w])"
  have s: "snd (serve gs env self (tr @ [?w])) = (tr @ [?w]) @ evs"
    unfolding evs_def by (rule serve_adds)
  have dev: "\<forall>e \<in> set evs. \<not> is_dev_call e"
    unfolding evs_def using serve_added_calls by blast
  have "added (run ar h gs env self opts) tr = ?w # evs"
    unfolding added_def r s by simp
  then have "\<not> list_ex is_dev_call (added (run ar h gs env self opts) tr)"
    using dev by (simp add: list_ex_iff)
  with r show ?thesis by simp
qed

lemmas model_defs = handle_def run_def inner_run_def inner_run_checks_def serve_def
  serve_startup_def bind_io_def then_io_def try_except_def call_def stdout_write_def
  stderr_write_def grpc_aio_server_def return_io_def sys_exit_def os_exit_def asyncio_run_def

lemma development_checks:
  "inner_run_checks linux (bind_fails en s) development [] =
     (Return (),
      checks_sequence @ [StdoutWrite (now linux), StdoutWrite (banner linux development)])"
  by (simp add: inner_run_checks_def io_defs bind_fails_def checks_sequence_def)

lemma development_bind_fails:
  "serve settings0 (bind_fails en s) development
     (checks_sequence @ [StdoutWrite (now linux), StdoutWrite (banner linux development)]) =
     (Raised (OSError en s),
      checks_sequence @ [StdoutWrite (now linux), StdoutWrite (banner linux development),
        GrpcAioServer [] [], RootHandlersHook 6, AddInsecurePort 6 (PyStr ''[::]:50051'')])"
  by (simp add: serve_def serve_startup_def io_defs bind_fails_def checks_sequence_def
        settings0_def development_def)

lemma production_bind_fails:
  "serve settings0 (bind_fails en s) production
     ([] @ [StdoutWrite (''Starting gRPC server at '' @ py_str (address production) @ [CHR 0x0A])]) =
     (Raised (OSError en s),
      [StdoutWrite (''Starting gRPC server at [::]:50051'' @ [CHR 0x0A]),
       GrpcAioServer [] [], RootHandlersHook 1, AddInsecurePort 1 (PyStr ''[::]:50051'')])"
  by (simp add: serve_def serve_startup_def io_defs bind_fails_def settings0_def production_def)

theorem bind_failure_exits_witness:
  "distinct [EACCES linux, EADDRINUSE linux, EADDRNOTAVAIL linux] \<and>
   inner_run linux settings0 (bind_fails (Some 13) ''[Errno 13] Permission denied'')
       development [] [] [] =
     (ProcessExit 1,
      checks_sequence @ [StdoutWrite (now linux), StdoutWrite (banner linux development),
        GrpcAioServer [] [], RootHandlersHook 6, AddInsecurePort 6 (PyStr ''[::]:50051''),
        StderrWrite ''Error: You don't have permission to access that port.'']) \<and>
   inner_run linux settings0 (bind_fails (Some 98) ''[Errno 98] Address already in use'')
       development [] [] [] =
     (ProcessExit 1,
      checks_sequence @ [StdoutWrite (now linux), StdoutWrite (banner linux development),
        GrpcAioServer [] [], RootHandlersHook 6, AddInsecurePort 6 (PyStr ''[::]:50051''),
        StderrWrite ''Error: That port is already in use.'']) \<and>
   inner_run linux settings0
       (bind_fails (Some 99) ''[Errno 99] Cannot assign requested address'')
       development [] [] [] =
     (ProcessExit 1,
      checks_sequence @ [StdoutWrite (now linux), StdoutWrite (banner linux development),
        GrpcAioServer [] [], RootHandlersHook 6, AddInsecurePort 6 (PyStr ''[::]:50051''),
        StderrWrite ''Error: That IP address can't be assigned to.'']) \<and>
   \<not> py_truthy (development_mode production) \<and>
   run reloader0 linux settings0 (bind_fails (Some 98) ''[Errno 98] Address already in use'')
       production [] [] =
     (Raised (OSError (Some 98) ''[Errno 98] Address already in use''),
      [StdoutWrite (''Starting gRPC server at [::]:50051'' @ [CHR 0x0A]),
       GrpcAioServer [] [], RootHandlersHook 1, AddInsecurePort 1 (PyStr ''[::]:50051'')])"
proof -
  have d: "distinct [EACCES linux, EADDRINUSE linux, EADDRNOTAVAIL linux]"
    by (simp add: linux_def)
  have n: "EACCES linux = 13" "EADDRINUSE linux = 98" "EADDRNOTAVAIL linux = 99"
    by (simp_all add: linux_def)
  have p: "\<not> py_truthy (development_mode production)"
    by (simp add: production_def)
  note t = bind_failure_exits[OF d, where gs = settings0 and tr = "[]" and args = "[]"
      and opts = "[]" and ar = reloader0]
  note dev = t[where self = development
      and tra = "checks_sequence @ [StdoutWrite (now linux), StdoutWrite (banner linux development)]"
      and trb = "checks_sequence @ [StdoutWrite (now linux), StdoutWrite (banner linux development),
        GrpcAioServer [] [], RootHandlersHook 6, AddInsecurePort 6 (PyStr ''[::]:50051'')]"]
  have a: "inner_run linux settings0 (bind_fails (Some 13) ''[Errno 13] Permission denied'')
       development [] [] [] =
     (ProcessExit 1,
      (checks_sequence @ [StdoutWrite (now linux), StdoutWrite (banner linux development),
        GrpcAioServer [] [], RootHandlersHook 6, AddInsecurePort 6 (PyStr ''[::]:50051'')])
      @ [StderrWrite ''Error: You don't have permission to access that port.''])"
    using dev[where n = 13 and s = "''[Errno 13] Permission denied''"
        and env = "bind_fails (Some 13) ''[Errno 13] Permission denied''"]
      development_checks[of "Some 13" "''[Errno 13] Permission denied''"]
      development_bind_fails[of "Some 13" "''[Errno 13] Permission denied''"] n
    by simp
  have b: "inner_run linux settings0 (bind_fails (Some 98) ''[Errno 98] Address already in use'')
       development [] [] [] =
     (ProcessExit 1,
      (checks_sequence @ [StdoutWrite (now linux), StdoutWrite (banner linux development),
        GrpcAioServer [] [], RootHandlersHook 6, AddInsecurePort 6 (PyStr ''[::]:50051'')])
      @ [StderrWrite ''Error: That port is already in use.''])"
    using dev[where n = 98 and s = "''[Errno 98] Address already in use''"
        and env = "bind_fails (Some 98) ''[Errno 98] Address already in use''"]
      development_checks[of "Some 98" "''[Errno 98] Address already in use''"]
      development_bind_fails[of "Some 98" "''[Errno 98] Address already in use''"] n
    by simp
  have c: "inner_run linux settings0
       (bind_fails (Some 99) ''[Errno 99] Cannot assign requested address'')
       development [] [] [] =
     (ProcessExit 1,
      (checks_sequence @ [StdoutWrite (now linux), StdoutWrite (banner linux development),
        GrpcAioServer [] [], RootHandlersHook 6, AddInsecurePort 6 (PyStr ''[::]:50051'')])
      @ [StderrWrite ''Error: That IP address can't be assigned to.''])"
    using dev[where n = 99 and s = "''[Errno 99] Cannot assign requested address''"
        and env = "bind_fails (Some 99) ''[Errno 99] Cannot assign requested address''"]
      development_checks[of "Some 99" "''[Errno 99] Cannot assign requested address''"]
      development_bind_fails[of "Some 99" "''[Errno 99] Cannot assign requested address''"] n
    by simp
  have e: "run reloader0 linux settings0
       (bind_fails (Some 98) ''[Errno 98] Address already in use'') production [] [] =
     (Raised (OSError (Some 98) ''[Errno 98] Address already in use''),
      [StdoutWrite (''Starting gRPC server at [::]:50051'' @ [CHR 0x0A]),
       GrpcAioServer [] [], RootHandlersHook 1, AddInsecurePort 1 (PyStr ''[::]:50051'')])"
    using t[where self = production and en = "Some 98"
        and s = "''[Errno 98] Address already in use''"
        and env = "bind_fails (Some 98) ''[Errno 98] Address already in use''"
        and trb = "[StdoutWrite (''Starting gRPC server at [::]:50051'' @ [CHR 0x0A]),
       GrpcAioServer [] [], RootHandlersHook 1, AddInsecurePort 1 (PyStr ''[::]:50051'')]"]
      p production_bind_fails[of "Some 98" "''[Errno 98] Address already in use''"]
    by simp
  show ?thesis
    using d p a b c e by simp
qed

text \<open>
  C1 as stated fails without development mode: the address is in use, the command is run
  with the default options, and \<^verbatim>\<open>handle\<close> ends with the \<^verbatim>\<open>OSError\<close> itself; no message
  was written to stderr and the process was not ended by the command.
\<close>

theorem bind_failure_production_counterexample:
  "handle reloader0 linux settings0 (bind_fails (Some 98) ''[Errno 98] Address already in use'')
       self0 [] production_options [] =
     ((Raised (OSError (Some 98) ''[Errno 98] Address already in use''),
       [StdoutWrite (''Starting gRPC server at [::]:50051'' @ [CHR 0x0A]),
        GrpcAioServer [] [], RootHandlersHook 1, AddInsecurePort 1 (PyStr ''[::]:50051'')]),
      production) \<and>
   StderrWrite ''Error: That port is already in use.''
     \<notin> set (snd (fst (handle reloader0 linux settings0
                (bind_fails (Some 98) ''[Errno 98] Address already in use'')
                self0 [] production_options [])))"
  by (simp add: model_defs settings0_def self0_def production_def production_options_def
        bind_fails_def)


theorem unknown_oserror_exits_witness:
  "Some 19 \<notin> {Some (EACCES linux), Some (EADDRINUSE linux), Some (EADDRNOTAVAIL linux)} \<and>
   inner_run linux settings0 (bind_fails (Some 19) ''[Errno 19] No such device'')
       development [] [] [] =
     (ProcessExit 1,
      checks_sequence @ [StdoutWrite (now linux), StdoutWrite (banner linux development),
        GrpcAioServer [] [], RootHandlersHook 6, AddInsecurePort 6 (PyStr ''[::]:50051''),
        StderrWrite ''Error: [Errno 19] No such device''])"
proof -
  have u: "Some 19 \<notin> {Some (EACCES linux), Some (EADDRINUSE linux), Some (EADDRNOTAVAIL linux)}"
    by (simp add: linux_def)
  show ?thesis
    using unknown_oserror_exits[OF development_checks development_bind_fails u,
        of "''[Errno 19] No such device''" "[]" "[]"] u
    by simp
qed

theorem production_mode_serves_directly_witness:
  "\<not> py_truthy (development_mode production) \<and>
   run reloader0 linux settings0 all_return production [] [] =
     (Return (),
      [StdoutWrite (''Starting gRPC server at [::]:50051'' @ [CHR 0x0A]),
       GrpcAioServer [] [], RootHandlersHook 1, AddInsecurePort 1 (PyStr ''[::]:50051''),
       StdoutWrite ''gRPC server started and listening.'', ServerStart 1,
       WaitForTermination 1]) \<and>
   \<not> list_ex is_dev_call (added (run reloader0 linux settings0 all_return production []) [])"
proof -
  have p: "\<not> py_truthy (development_mode production)"
    by (simp add: production_def)
  have s: "serve settings0 all_return production
             ([] @ [StdoutWrite (''Starting gRPC server at '' @ py_str (address production)
                                 @ [CHR 0x0A])]) =
     (Return (),
      [StdoutWrite (''Starting gRPC server at [::]:50051'' @ [CHR 0x0A]),
       GrpcAioServer [] [], RootHandlersHook 1, AddInsecurePort 1 (PyStr ''[::]:50051''),
       StdoutWrite ''gRPC server started and listening.'', ServerStart 1,
       WaitForTermination 1])"
    by (simp add: serve_def serve_startup_def io_defs all_return_def settings0_def production_def)
  show ?thesis
    using production_mode_serves_directly[OF p, of reloader0 linux settings0 all_return "[]" "[]"]
      p s
    by simp
qed


lemma find_append_first:
  "find P (xs @ ys) = (case find P xs of Some x \<Rightarrow> Some x | None \<Rightarrow> find P ys)"
  by (induction xs) auto

lemma find_in_set: "find P xs = Some x \<Longrightarrow> x \<in> set xs \<and> P x"
  by (induction xs) (auto split: if_splits)

lemma find_own_names:
  assumes "no_clash parser"
  shows "find (\<lambda>a. arg_name a = ''address'') (add_arguments parser) =
           Some \<lparr>arg_name = ''address'', arg_nargs = NargsOptional, arg_type = TypeNone,
              arg_default = Some (PyStr ''[::]:50051''), arg_dest = None, arg_action = Store,
              arg_help = ''Optional address for which to open a port.''\<rparr>"
    and "find (\<lambda>a. arg_name a = ''--max-workers'') (add_arguments parser) =
           Some \<lparr>arg_name = ''--max-workers'', arg_nargs = NargsNone, arg_type = TypeInt,
              arg_default = Some (PyInt 10), arg_dest = Some ''max_workers'', arg_action = Store,
              arg_help = ''Number of maximum worker threads.''\<rparr>"
    and "find (\<lambda>a. arg_name a = ''--dev'') (add_arguments parser) =
           Some \<lparr>arg_name = ''--dev'', arg_nargs = NargsNone, arg_type = TypeNone,
              arg_default = None, arg_dest = Some ''development_mode'', arg_action = StoreTrue,
              arg_help = ''Run the server in development mode. This tells Django to use ''
                   @ ''the auto-reloader and run checks.''\<rparr>"
proof -
  have n: "find (\<lambda>a. arg_name a = name) parser = None"
    if "name \<in> {''address'', ''--max-workers'', ''--dev''}" for name
  proof (cases "find (\<lambda>a. arg_name a = name) parser")
    case (Some a)
    then have "a \<in> set parser" "arg_name a = name" using find_in_set by fastforce+
    then show ?thesis using assms that by (auto simp: no_clash_def list_all_iff)
  qed simp
  show "find (\<lambda>a. arg_name a = ''address'') (add_arguments parser) =
           Some \<lparr>arg_name = ''address'', arg_nargs = NargsOptional, arg_type = TypeNone,
              arg_default = Some (PyStr ''[::]:50051''), arg_dest = None, arg_action = Store,
              arg_help = ''Optional address for which to open a port.''\<rparr>"
    using n[of "''address''"]
    by (simp add: add_arguments_def add_argument_def find_append_first)
  show "find (\<lambda>a. arg_name a = ''--max-workers'') (add_arguments parser) =
           Some \<lparr>arg_name = ''--max-workers'', arg_nargs = NargsNone, arg_type = TypeInt,
              arg_default = Some (PyInt 10), arg_dest = Some ''max_workers'', arg_action = Store,
              arg_help = ''Number of maximum worker threads.''\<rparr>"
    using n[of "''--max-workers''"]
    by (simp add: add_arguments_def add_argument_def find_append_first)
  show "find (\<lambda>a. arg_name a = ''--dev'') (add_arguments parser) =
           Some \<lparr>arg_name = ''--dev'', arg_nargs = NargsNone, arg_type = TypeNone,
              arg_default = None, arg_dest = Some ''development_mode'', arg_action = StoreTrue,
              arg_help = ''Run the server in development mode. This tells Django to use ''
                   @ ''the auto-reloader and run checks.''\<rparr>"
    using n[of "''--dev''"]
    by (simp add: add_arguments_def add_argument_def find_append_first)
qed

lemma find_add_argument:
  "find P (add_argument parser a) =
     (case find P parser of Some x \<Rightarrow> Some x | None \<Rightarrow> (if P a then Some a else None))"
  by (auto simp: add_argument_def find_append_first split: option.splits)

lemma find_dest:
  assumes "no_clash parser"
    and "find (\<lambda>a. arg_name a = name) (add_arguments parser) = Some a"
  shows "(name = ''address'' \<and> dest_of a = ''address'') \<or>
         (name = ''--max-workers'' \<and> dest_of a = ''max_workers'') \<or>
         (name = ''--dev'' \<and> dest_of a = ''development_mode'') \<or>
         (name \<notin> {''address'', ''--max-workers'', ''--dev''} \<and>
          dest_of a \<notin> {''address'', ''max_workers'', ''development_mode''})"
proof -
  consider "name = ''address''" | "name = ''--max-workers''" | "name = ''--dev''"
    | "name \<notin> {''address'', ''--max-workers'', ''--dev''}"
    by blast
  then show ?thesis
  proof cases
    case 1
    then have "dest_of a = ''address''"
      using find_own_names(1)[OF assms(1)] assms(2) by (auto simp: dest_of_def)
    with 1 show ?thesis by simp
  next
    case 2
    then have "dest_of a = ''max_workers''"
      using find_own_names(2)[OF assms(1)] assms(2) by (auto simp: dest_of_def)
    with 2 show ?thesis by simp
  next
    case 3
    then have "dest_of a = ''development_mode''"
      using find_own_names(3)[OF assms(1)] assms(2) by (auto simp: dest_of_def)
    with 3 show ?thesis by simp
  next
    case 4
    then have "find (\<lambda>a. arg_name a = name) parser = Some a"
      using assms(2) unfolding add_arguments_def find_add_argument
      by (auto split: option.splits if_splits)
    then have "a \<in> set parser" using find_in_set by fastforce
    then have "dest_of a \<notin> {''address'', ''max_workers'', ''development_mode''}"
      using assms(1) by (simp add: no_clash_def list_all_iff)
    with 4 show ?thesis by blast
  qed
qed

lemma store_found_keeps:
  "store_found int_of parser found ns = Inr ns' \<Longrightarrow>
   (\<And>name s a. (name, s) \<in> set found \<Longrightarrow> find (\<lambda>a. arg_name a = name) parser = Some a \<Longrightarrow>
      dest_of a \<noteq> k) \<Longrightarrow>
   map_of ns' k = map_of ns k"
proof (induction found arbitrary: ns)
  case Nil
  then show ?case by simp
next
  case (Cons p found)
  obtain name s where p: "p = (name, s)" by (cases p)
  from Cons.prems(1) p obtain a v where
    a: "find (\<lambda>a. arg_name a = name) parser = Some a"
    and v: "convert int_of a s = Inr v"
    and r: "store_found int_of parser found (AList.update (dest_of a) v ns) = Inr ns'"
    by (auto split: option.splits sum.splits)
  have "dest_of a \<noteq> k" using Cons.prems(2)[of name s a] a p by simp
  moreover have "map_of ns' k = map_of (AList.update (dest_of a) v ns) k"
  proof (rule Cons.IH[OF r])
    fix name' s' a'
    assume "(name', s') \<in> set found" "find (\<lambda>a. arg_name a = name') parser = Some a'"
    then show "dest_of a' \<noteq> k" using Cons.prems(2)[of name' s' a'] by simp
  qed
  ultimately show ?case by (simp add: update_conv')
qed

lemma store_found_present:
  "store_found int_of parser found ns = Inr ns' \<Longrightarrow> map_of ns k \<noteq> None \<Longrightarrow>
   map_of ns' k \<noteq> None"
proof (induction found arbitrary: ns)
  case Nil
  then show ?case by simp
next
  case (Cons p found)
  obtain name s where p: "p = (name, s)" by (cases p)
  from Cons.prems(1) p obtain a v where
    r: "store_found int_of parser found (AList.update (dest_of a) v ns) = Inr ns'"
    by (auto split: option.splits sum.splits)
  have "map_of (AList.update (dest_of a) v ns) k \<noteq> None"
    using Cons.prems(2) by (simp add: update_conv')
  then show ?case using Cons.IH[OF r] by simp
qed

lemma map_of_skip:
  "list_all (\<lambda>a. dest_of a \<noteq> k) parser \<Longrightarrow>
   map_of (map (\<lambda>a. (dest_of a, default_of a)) parser @ ys) k = map_of ys k"
  by (induction parser) auto

lemma initial_namespace_add_arguments:
  "initial_namespace (add_arguments parser) =
     map (\<lambda>a. (dest_of a, default_of a)) parser @
     [(''address'', PyStr ''[::]:50051''), (''max_workers'', PyInt 10),
      (''development_mode'', PyBool False)]"
proof -
  have "initial_namespace [a, b, c] =
          [(dest_of a, default_of a), (dest_of b, default_of b), (dest_of c, default_of c)]"
    for a b c
    by (simp add: initial_namespace_def)
  then have "initial_namespace (add_arguments []) =
     [(''address'', PyStr ''[::]:50051''), (''max_workers'', PyInt 10),
      (''development_mode'', PyBool False)]"
    by (simp add: add_arguments_def add_argument_def dest_of_def default_of_def)
  moreover have "initial_namespace (add_arguments parser) =
     map (\<lambda>a. (dest_of a, default_of a)) parser @ initial_namespace (add_arguments [])"
    by (simp add: initial_namespace_def add_arguments_def add_argument_def)
  ultimately show ?thesis by simp
qed

lemma initial_defaults:
  assumes "no_clash parser"
  shows "map_of (initial_namespace (add_arguments parser)) ''address'' = Some (PyStr ''[::]:50051'')"
    and "map_of (initial_namespace (add_arguments parser)) ''max_workers'' = Some (PyInt 10)"
    and "map_of (initial_namespace (add_arguments parser)) ''development_mode'' = Some (PyBool False)"
proof -
  have "list_all (\<lambda>a. dest_of a \<noteq> ''address'') parser"
    "list_all (\<lambda>a. dest_of a \<noteq> ''max_workers'') parser"
    "list_all (\<lambda>a. dest_of a \<noteq> ''development_mode'') parser"
    using assms by (auto simp: no_clash_def list_all_iff)
  then show
    "map_of (initial_namespace (add_arguments parser)) ''address'' = Some (PyStr ''[::]:50051'')"
    "map_of (initial_namespace (add_arguments parser)) ''max_workers'' = Some (PyInt 10)"
    "map_of (initial_namespace (add_arguments parser)) ''development_mode'' = Some (PyBool False)"
    by (simp_all add: initial_namespace_add_arguments map_of_skip del: map_of_append)
qed

lemma handle_stores:
  "map_of opts ''address'' = Some a \<Longrightarrow> map_of opts ''development_mode'' = Some d \<Longrightarrow>
   map_of opts ''max_workers'' = Some w \<Longrightarrow>
   handle ar h gs env self args opts tr =
     (run ar h gs env (self\<lparr>address := a, development_mode := d, max_workers := w\<rparr>) opts tr,
      self\<lparr>address := a, development_mode := d, max_workers := w\<rparr>)"
  by (simp add: handle_def asyncio_run_def Let_def)

lemma parse_has_options:
  assumes "no_clash parser"
    and "parse_args int_of (add_arguments parser) found = Inr opts"
  shows "\<exists>a d w. map_of opts ''address'' = Some a \<and> map_of opts ''development_mode'' = Some d \<and>
           map_of opts ''max_workers'' = Some w"
proof -
  have s: "store_found int_of (add_arguments parser) found
             (initial_namespace (add_arguments parser)) = Inr opts"
    using assms(2) by (simp add: parse_args_def)
  have "map_of opts ''address'' \<noteq> None"
    using store_found_present[OF s] initial_defaults(1)[OF assms(1)] by simp
  moreover have "map_of opts ''development_mode'' \<noteq> None"
    using store_found_present[OF s] initial_defaults(3)[OF assms(1)] by simp
  moreover have "map_of opts ''max_workers'' \<noteq> None"
    using store_found_present[OF s] initial_defaults(2)[OF assms(1)] by simp
  ultimately show ?thesis by auto
qed

lemma parse_keeps_default:
  assumes "no_clash parser"
    and "parse_args int_of (add_arguments parser) found = Inr opts"
    and "(name, k) \<in> {(''address'', ''address''), (''--max-workers'', ''max_workers''),
                       (''--dev'', ''development_mode'')}"
    and "name \<notin> fst ` set found"
  shows "map_of opts k = map_of (initial_namespace (add_arguments parser)) k"
proof -
  have s: "store_found int_of (add_arguments parser) found
             (initial_namespace (add_arguments parser)) = Inr opts"
    using assms(2) by (simp add: parse_args_def)
  show ?thesis
  proof (rule store_found_keeps[OF s])
    fix name' s' a
    assume f: "(name', s') \<in> set found"
      and a: "find (\<lambda>a. arg_name a = name') (add_arguments parser) = Some a"
    have "name' \<noteq> name" using f assms(4) by force
    then show "dest_of a \<noteq> k"
      using find_dest[OF assms(1) a] assms(3) by auto
  qed
qed

lemma inner_run_reads:
  "address s1 = address s2 \<Longrightarrow>
   inner_run h gs env s1 a1 o1 = inner_run h gs env s2 a2 o2"
  by (simp add: inner_run_def inner_run_checks_def banner_def serve_def serve_startup_def)

lemma run_reads:
  assumes "address s1 = address s2" and "development_mode s1 = development_mode s2"
  shows "run ar h gs env s1 o1 = run ar h gs env s2 o2"
proof -
  have "inner_run h gs env s1 [] o1 = inner_run h gs env s2 [] o2"
    using assms(1) by (rule inner_run_reads)
  moreover have "serve gs env s1 = serve gs env s2"
    using assms(1) by (simp add: serve_def serve_startup_def)
  ultimately show ?thesis
    using assms by (simp add: run_def split: option.splits)
qed

text \<open>
  C7. On a parser whose earlier arguments do not clash with them, \<open>add_arguments\<close>
  declares \<^verbatim>\<open>address\<close>, a positional argument that may be left out (\<^verbatim>\<open>nargs='?'\<close>: the
  empty command line parses), \<^verbatim>\<open>--max-workers\<close>, stored as an integer and rejected when
  its text is no integer, and \<^verbatim>\<open>--dev\<close>, a flag that stores \<^verbatim>\<open>True\<close> under
  \<^verbatim>\<open>development_mode\<close>. Whatever command line parses, its options hold an address, a
  development mode and a worker count, and \<^verbatim>\<open>handle\<close> stores the three on the command
  object and then runs \<^verbatim>\<open>run\<close> on the object that holds them.
\<close>

theorem arguments_parsed_and_stored:
  assumes "no_clash parser"
  shows
   "(case find (\<lambda>a. arg_name a = ''address'') (add_arguments parser) of
       Some a \<Rightarrow> arg_nargs a = NargsOptional \<and> arg_action a = Store
     | None \<Rightarrow> False) \<and>
    (case find (\<lambda>a. arg_name a = ''--max-workers'') (add_arguments parser) of
       Some a \<Rightarrow> arg_type a = TypeInt \<and> arg_action a = Store
     | None \<Rightarrow> False) \<and>
    (case find (\<lambda>a. arg_name a = ''--dev'') (add_arguments parser) of
       Some a \<Rightarrow> arg_action a = StoreTrue
     | None \<Rightarrow> False) \<and>
    parse_args int_of (add_arguments parser) [] =
      Inr (initial_namespace (add_arguments parser)) \<and>
    store_found int_of (add_arguments parser) ((''address'', s) # found) ns =
      store_found int_of (add_arguments parser) found
        (AList.update ''address'' (PyStr s) ns) \<and>
    store_found int_of (add_arguments parser) ((''--max-workers'', s) # found) ns =
      (case int_of s of
         Some i \<Rightarrow> store_found int_of (add_arguments parser) found
                     (AList.update ''max_workers'' (PyInt i) ns)
       | None \<Rightarrow> Inl (SystemExit 2)) \<and>
    store_found int_of (add_arguments parser) ((''--dev'', s) # found) ns =
      store_found int_of (add_arguments parser) found
        (AList.update ''development_mode'' (PyBool True) ns) \<and>
    (parse_args int_of (add_arguments parser) found' = Inr opts \<longrightarrow>
       (\<exists>a d w. map_of opts ''address'' = Some a \<and>
                map_of opts ''development_mode'' = Some d \<and>
                map_of opts ''max_workers'' = Some w \<and>
                handle ar h gs env self args opts tr =
                  (run ar h gs env
                     (self\<lparr>address := a, development_mode := d, max_workers := w\<rparr>) opts tr,
                   self\<lparr>address := a, development_mode := d, max_workers := w\<rparr>)))"
proof -
  note f = find_own_names[OF assms]
  have 1: "store_found int_of (add_arguments parser) ((''address'', s) # found) ns =
      store_found int_of (add_arguments parser) found (AList.update ''address'' (PyStr s) ns)"
    by (simp add: f(1) convert_def dest_of_def)
  have 2: "store_found int_of (add_arguments parser) ((''--max-workers'', s) # found) ns =
      (case int_of s of
         Some i \<Rightarrow> store_found int_of (add_arguments parser) found
                     (AList.update ''max_workers'' (PyInt i) ns)
       | None \<Rightarrow> Inl (SystemExit 2))"
    by (simp add: f(2) convert_def dest_of_def split: option.splits)
  have 3: "store_found int_of (add_arguments parser) ((''--dev'', s) # found) ns =
      store_found int_of (add_arguments parser) found
        (AList.update ''development_mode'' (PyBool True) ns)"
    by (simp add: f(3) convert_def dest_of_def)
  have 4: "parse_args int_of (add_arguments parser) found' = Inr opts \<longrightarrow>
       (\<exists>a d w. map_of opts ''address'' = Some a \<and>
                map_of opts ''development_mode'' = Some d \<and>
                map_of opts ''max_workers'' = Some w \<and>
                handle ar h gs env self args opts tr =
                  (run ar h gs env
                     (self\<lparr>address := a, development_mode := d, max_workers := w\<rparr>) opts tr,
                   self\<lparr>address := a, development_mode := d, max_workers := w\<rparr>))"
    using parse_has_options[OF assms] handle_stores by blast
  have 5: "parse_args int_of (add_arguments parser) [] =
      Inr (initial_namespace (add_arguments parser))"
    by (simp add: parse_args_def)
  show ?thesis
    using 1 2 3 4 5 by (simp add: f)
qed

text \<open>
  C10. On a parser whose earlier arguments do not clash with them and a command line that
  parses: where \<^verbatim>\<open>address\<close> is not given, the option and the attribute \<^verbatim>\<open>handle\<close> stores
  are \<^verbatim>\<open>'[::]:50051'\<close>; where \<^verbatim>\<open>--max-workers\<close> is not given, they are 10; where
  \<^verbatim>\<open>--dev\<close> is not given, they are \<^verbatim>\<open>False\<close>.
\<close>

theorem argument_defaults:
  assumes "no_clash parser"
    and "parse_args int_of (add_arguments parser) found = Inr opts"
  shows
   "(''address'' \<notin> fst ` set found \<longrightarrow>
       map_of opts ''address'' = Some (PyStr ''[::]:50051'') \<and>
       address (snd (handle ar h gs env self args opts tr)) = PyStr ''[::]:50051'') \<and>
    (''--max-workers'' \<notin> fst ` set found \<longrightarrow>
       map_of opts ''max_workers'' = Some (PyInt 10) \<and>
       max_workers (snd (handle ar h gs env self args opts tr)) = PyInt 10) \<and>
    (''--dev'' \<notin> fst ` set found \<longrightarrow>
       map_of opts ''development_mode'' = Some (PyBool False) \<and>
       development_mode (snd (handle ar h gs env self args opts tr)) = PyBool False)"
proof -
  obtain a d w where o: "map_of opts ''address'' = Some a"
    "map_of opts ''development_mode'' = Some d" "map_of opts ''max_workers'' = Some w"
    using parse_has_options[OF assms] by blast
  have hs: "snd (handle ar h gs env self args opts tr) =
      self\<lparr>address := a, development_mode := d, max_workers := w\<rparr>"
    using handle_stores[OF o] by simp
  have "map_of opts ''address'' = Some (PyStr ''[::]:50051'')"
    if "''address'' \<notin> fst ` set found"
    using parse_keeps_default[OF assms, of "''address''" "''address''"] that
      initial_defaults(1)[OF assms(1)] by simp
  moreover have "map_of opts ''max_workers'' = Some (PyInt 10)"
    if "''--max-workers'' \<notin> fst ` set found"
    using parse_keeps_default[OF assms, of "''--max-workers''" "''max_workers''"] that
      initial_defaults(2)[OF assms(1)] by simp
  moreover have "map_of opts ''development_mode'' = Some (PyBool False)"
    if "''--dev'' \<notin> fst ` set found"
    using parse_keeps_default[OF assms, of "''--dev''" "''development_mode''"] that
      initial_defaults(3)[OF assms(1)] by simp
  ultimately show ?thesis
    using o hs by auto
qed

text \<open>
  C8. Two invocations whose options differ in \<^verbatim>\<open>max_workers\<close> only end the same way
  with the same trace: the same server is built and the same calls are made. \<^verbatim>\<open>_serve\<close>,
  \<^verbatim>\<open>inner_run\<close> and \<^verbatim>\<open>run\<close> do not depend on the \<^verbatim>\<open>max_workers\<close> attribute (nor do
  \<^verbatim>\<open>inner_run\<close> and \<^verbatim>\<open>run\<close> on the options they are passed); \<^verbatim>\<open>handle\<close> only stores
  the value on the command object.
\<close>

theorem max_workers_unused:
  "fst (handle ar h gs env self args (AList.update ''max_workers'' w opts) tr) =
   fst (handle ar h gs env self args (AList.update ''max_workers'' w' opts) tr) \<and>
   serve gs env (self\<lparr>max_workers := w\<rparr>) = serve gs env self \<and>
   inner_run h gs env (self\<lparr>max_workers := w\<rparr>) args opts = inner_run h gs env self args opts \<and>
   run ar h gs env (self\<lparr>max_workers := w\<rparr>) opts = run ar h gs env self opts' \<and>
   (map_of opts ''address'' \<noteq> None \<and> map_of opts ''development_mode'' \<noteq> None \<longrightarrow>
      max_workers (snd (handle ar h gs env self args (AList.update ''max_workers'' w opts) tr)) = w)"
proof -
  have 1: "fst (handle ar h gs env self args (AList.update ''max_workers'' w opts) tr) =
   fst (handle ar h gs env self args (AList.update ''max_workers'' w' opts) tr)"
  proof -
    have r: "run ar h gs env s1 o1 tr = run ar h gs env s2 o2 tr"
      if "address s1 = address s2" "development_mode s1 = development_mode s2"
      for s1 s2 o1 o2
      using run_reads[OF that, of ar h gs env o1 o2] by simp
    show ?thesis
      by (cases "map_of opts ''address''"; cases "map_of opts ''development_mode''")
         (auto simp: handle_def Let_def update_conv' asyncio_run_def intro!: r)
  qed
  have 2: "serve gs env (self\<lparr>max_workers := w\<rparr>) = serve gs env self"
    by (simp add: serve_def serve_startup_def)
  have 3: "inner_run h gs env (self\<lparr>max_workers := w\<rparr>) args opts = inner_run h gs env self args opts"
    by (simp add: inner_run_def inner_run_checks_def banner_def 2)
  have 4: "run ar h gs env (self\<lparr>max_workers := w\<rparr>) opts = run ar h gs env self opts'"
    by (rule run_reads) simp_all
  have 5: "map_of opts ''address'' \<noteq> None \<and> map_of opts ''development_mode'' \<noteq> None \<longrightarrow>
      max_workers (snd (handle ar h gs env self args (AList.update ''max_workers'' w opts) tr)) = w"
    by (auto simp: handle_def Let_def update_conv' split: option.splits)
  show ?thesis using 1 2 3 4 5 by blast
qed

lemma no_clash_base: "no_clash base_parser"
  by (simp add: no_clash_def base_parser_def dest_of_def)

lemmas parser_defs = parse_args_def add_arguments_def add_argument_def base_parser_def
  initial_namespace_def dest_of_def default_of_def convert_def int_of0_def

theorem arguments_parsed_and_stored_witness:
  "no_clash base_parser \<and>
   parse_args int_of0 (add_arguments base_parser)
       [(''--max-workers'', ''4''), (''--dev'', []), (''address'', ''localhost:8000'')] =
     Inr [(''traceback'', PyBool False), (''address'', PyStr ''localhost:8000''),
          (''max_workers'', PyInt 4), (''development_mode'', PyBool True)] \<and>
   snd (handle reloader0 linux settings0 all_return self0 []
          [(''traceback'', PyBool False), (''address'', PyStr ''localhost:8000''),
           (''max_workers'', PyInt 4), (''development_mode'', PyBool True)] []) =
     self0\<lparr>address := PyStr ''localhost:8000'', development_mode := PyBool True,
           max_workers := PyInt 4\<rparr>"
proof -
  let ?opts = "[(''traceback'', PyBool False), (''address'', PyStr ''localhost:8000''),
          (''max_workers'', PyInt 4), (''development_mode'', PyBool True)]"
  have p: "parse_args int_of0 (add_arguments base_parser)
       [(''--max-workers'', ''4''), (''--dev'', []), (''address'', ''localhost:8000'')] =
     Inr ?opts"
    by (simp add: parser_defs)
  note t = arguments_parsed_and_stored[OF no_clash_base, where int_of = int_of0
      and found' = "[(''--max-workers'', ''4''), (''--dev'', []), (''address'', ''localhost:8000'')]"
      and opts = ?opts and ar = reloader0 and h = linux and gs = settings0 and env = all_return
      and self = self0 and args = "[]" and tr = "[]" and s = "[]" and found = "[]" and ns = "[]"]
  from t p obtain a d w where
    "map_of ?opts ''address'' = Some a" "map_of ?opts ''development_mode'' = Some d"
    "map_of ?opts ''max_workers'' = Some w"
    "handle reloader0 linux settings0 all_return self0 [] ?opts [] =
       (run reloader0 linux settings0 all_return
          (self0\<lparr>address := a, development_mode := d, max_workers := w\<rparr>) ?opts [],
        self0\<lparr>address := a, development_mode := d, max_workers := w\<rparr>)"
    by blast
  then have "snd (handle reloader0 linux settings0 all_return self0 [] ?opts []) =
     self0\<lparr>address := PyStr ''localhost:8000'', development_mode := PyBool True,
           max_workers := PyInt 4\<rparr>"
    by simp
  then show ?thesis
    using no_clash_base p by simp
qed

theorem argument_defaults_witness:
  "no_clash base_parser \<and>
   parse_args int_of0 (add_arguments base_parser) [(''--traceback'', [])] =
     Inr [(''traceback'', PyBool True), (''address'', PyStr ''[::]:50051''),
          (''max_workers'', PyInt 10), (''development_mode'', PyBool False)] \<and>
   address (snd (handle reloader0 linux settings0 all_return self0 []
          [(''traceback'', PyBool True), (''address'', PyStr ''[::]:50051''),
           (''max_workers'', PyInt 10), (''development_mode'', PyBool False)] [])) =
     PyStr ''[::]:50051'' \<and>
   max_workers (snd (handle reloader0 linux settings0 all_return self0 []
          [(''traceback'', PyBool True), (''address'', PyStr ''[::]:50051''),
           (''max_workers'', PyInt 10), (''development_mode'', PyBool False)] [])) =
     PyInt 10 \<and>
   development_mode (snd (handle reloader0 linux settings0 all_return self0 []
          [(''traceback'', PyBool True), (''address'', PyStr ''[::]:50051''),
           (''max_workers'', PyInt 10), (''development_mode'', PyBool False)] [])) =
     PyBool False"
proof -
  have p: "parse_args int_of0 (add_arguments base_parser) [(''--traceback'', [])] =
     Inr [(''traceback'', PyBool True), (''address'', PyStr ''[::]:50051''),
          (''max_workers'', PyInt 10), (''development_mode'', PyBool False)]"
    by (simp add: parser_defs)
  show ?thesis
    using argument_defaults[OF no_clash_base p, of reloader0 linux settings0 all_return self0
        "[]" "[]"] no_clash_base p
    by simp
qed

theorem max_workers_unused_witness:
  "map_of production_options ''address'' \<noteq> None \<and>
   map_of production_options ''development_mode'' \<noteq> None \<and>
   fst (handle reloader0 linux settings0 all_return self0 []
          (AList.update ''max_workers'' (PyInt 1) production_options) []) =
   fst (handle reloader0 linux settings0 all_return self0 []
          (AList.update ''max_workers'' (PyInt 64) production_options) []) \<and>
   max_workers (snd (handle reloader0 linux settings0 all_return self0 []
          (AList.update ''max_workers'' (PyInt 1) production_options) [])) = PyInt 1 \<and>
   max_workers (snd (handle reloader0 linux settings0 all_return self0 []
          (AList.update ''max_workers'' (PyInt 64) production_options) [])) = PyInt 64"
proof -
  have k: "map_of production_options ''address'' \<noteq> None"
    "map_of production_options ''development_mode'' \<noteq> None"
    by (simp_all add: production_options_def)
  show ?thesis
    using max_workers_unused[of reloader0 linux settings0 all_return self0 "[]" "PyInt 1"
        production_options "[]" "PyInt 64" "[]"]
      max_workers_unused[of reloader0 linux settings0 all_return self0 "[]" "PyInt 64"
        production_options "[]" "PyInt 1" "[]"] k
    by simp
qed

end
